theory Spec2Isabelle
  imports Complex_Main "HOL-Library.Sublist"
begin

section \<open>Income-distribution explorer: the percentile pipeline of app.py\<close>

text \<open>
  The development embeds the functions of \<^verbatim>\<open>app.py\<close> that carry logic of their own:
  \<^verbatim>\<open>get_afford\<close>, \<^verbatim>\<open>get_income_groups\<close>, \<^verbatim>\<open>parse_percentile\<close>, \<^verbatim>\<open>filter_data\<close>,
  \<^verbatim>\<open>get_locale\<close>, \<^verbatim>\<open>prepare_summary_data\<close> and the no-data check of \<^verbatim>\<open>main\<close>.

  Conventions.
  \<^item> A Python \<^verbatim>\<open>str\<close> is a \<^typ>\<open>string\<close>; a code point beyond ASCII is written as the
    bytes of its UTF-8 encoding, which is injective, so equality of labels is kept.
  \<^item> A raised exception is the \<open>Inl\<close> of a result of type \<open>error + 'a\<close>.
  \<^item> A Python \<^verbatim>\<open>int\<close> is an \<^typ>\<open>int\<close>.
  \<^item> In \<^verbatim>\<open>parse_percentile\<close> the builtin \<^verbatim>\<open>float\<close> is a parameter. In
    \<^verbatim>\<open>prepare_summary_data\<close> a float is a binary64 value: a finite one is the rational
    number it is equal to, and the infinities and NaN are values of their own. The
    filter only carries the \<^verbatim>\<open>value\<close> column along and never reads it.
\<close>

subsection \<open>Exceptions\<close>

datatype error = ValueError | IndexError | KeyError | ZeroDivisionError | OverflowError

subsection \<open>get\_afford (lines 306--390)\<close>

text \<open>
  The \<^verbatim>\<open>match\<close> statement tries its guarded cases from top to bottom and returns at the
  first guard that holds; the last case \<^verbatim>\<open>case _\<close> has no guard.
\<close>

definition get_afford :: "int \<Rightarrow> string" where
  "get_afford income_usd = (let n = income_usd in
     if n \<le> 0 then [CHR 0xE2, CHR 0x98, CHR 0xA0, CHR 0xEF, CHR 0xB8, CHR 0x8F]
     else if n < 100 then ''nice dinner for two '' @ [CHR 0xF0, CHR 0x9F, CHR 0x8D, CHR 0xBD, CHR 0xEF, CHR 0xB8, CHR 0x8F]
     else if n < 200 then ''pair of Nike shoes '' @ [CHR 0xF0, CHR 0x9F, CHR 0x91, CHR 0x9F]
     else if n < 300 then ''weekend hotel stay '' @ [CHR 0xF0, CHR 0x9F, CHR 0x8F, CHR 0xA8]
     else if n < 500 then ''budget smartphone '' @ [CHR 0xF0, CHR 0x9F, CHR 0x93, CHR 0xB1]
     else if n < 750 then ''round-trip domestic flight '' @ [CHR 0xE2, CHR 0x9C, CHR 0x88, CHR 0xEF, CHR 0xB8, CHR 0x8F]
     else if n < 1000 then ''month'' @ [CHR 0x27] @ ''s rent in a small town '' @ [CHR 0xF0, CHR 0x9F, CHR 0x8F, CHR 0xA0]
     else if n < 2000 then ''gaming console '' @ [CHR 0xF0, CHR 0x9F, CHR 0x8E, CHR 0xAE]
     else if n < 3000 then ''high-end laptop '' @ [CHR 0xF0, CHR 0x9F, CHR 0x92, CHR 0xBB]
     else if n < 5000 then ''used motorcycle '' @ [CHR 0xF0, CHR 0x9F, CHR 0x8F, CHR 0x8D, CHR 0xEF, CHR 0xB8, CHR 0x8F]
     else if n < 7500 then ''home theater system '' @ [CHR 0xF0, CHR 0x9F, CHR 0x93, CHR 0xBA]
     else if n < 10000 then ''semester at community college '' @ [CHR 0xF0, CHR 0x9F, CHR 0x8E, CHR 0x93]
     else if n < 25000 then ''decent used car '' @ [CHR 0xF0, CHR 0x9F, CHR 0x9A, CHR 0x97]
     else if n < 35000 then ''new economy car '' @ [CHR 0xF0, CHR 0x9F, CHR 0x9A, CHR 0x99]
     else if n < 50000 then ''wedding celebration '' @ [CHR 0xF0, CHR 0x9F, CHR 0x92, CHR 0x92]
     else if n < 75000 then ''year at private university '' @ [CHR 0xF0, CHR 0x9F, CHR 0x8E, CHR 0x93]
     else if n < 100000 then ''Tesla Model 3 '' @ [CHR 0xF0, CHR 0x9F, CHR 0x9A, CHR 0x98]
     else if n < 150000 then ''mobile home '' @ [CHR 0xF0, CHR 0x9F, CHR 0x8F, CHR 0xA0]
     else if n < 250000 then ''small apartment in suburbs '' @ [CHR 0xF0, CHR 0x9F, CHR 0x8F, CHR 0xA2]
     else if n < 350000 then ''condo in a major city '' @ [CHR 0xF0, CHR 0x9F, CHR 0x8C, CHR 0x83]
     else if n < 500000 then ''nice house in most cities '' @ [CHR 0xF0, CHR 0x9F, CHR 0x8F, CHR 0xA1]
     else if n < 750000 then ''beach house '' @ [CHR 0xF0, CHR 0x9F, CHR 0x8F, CHR 0x96, CHR 0xEF, CHR 0xB8, CHR 0x8F]
     else if n < 1500000 then ''luxury yacht '' @ [CHR 0xE2, CHR 0x9B, CHR 0xB5]
     else if n < 2000000 then ''Bugatti supercar '' @ [CHR 0xF0, CHR 0x9F, CHR 0x8F, CHR 0x8E, CHR 0xEF, CHR 0xB8, CHR 0x8F]
     else if n < 3000000 then ''penthouse apartment '' @ [CHR 0xF0, CHR 0x9F, CHR 0x8F, CHR 0x99, CHR 0xEF, CHR 0xB8, CHR 0x8F]
     else if n < 5000000 then ''private jet share '' @ [CHR 0xE2, CHR 0x9C, CHR 0x88, CHR 0xEF, CHR 0xB8, CHR 0x8F]
     else if n < 7500000 then ''small vineyard '' @ [CHR 0xF0, CHR 0x9F, CHR 0x8D, CHR 0x87]
     else if n < 10000000 then ''mansion in Beverly Hills '' @ [CHR 0xF0, CHR 0x9F, CHR 0x8F, CHR 0xB0]
     else if n < 20000000 then ''private jet '' @ [CHR 0xE2, CHR 0x9C, CHR 0x88, CHR 0xEF, CHR 0xB8, CHR 0x8F]
     else if n < 30000000 then ''luxury hotel '' @ [CHR 0xF0, CHR 0x9F, CHR 0x8F, CHR 0xA8]
     else if n < 50000000 then ''private island '' @ [CHR 0xF0, CHR 0x9F, CHR 0x8F, CHR 0x9D, CHR 0xEF, CHR 0xB8, CHR 0x8F]
     else if n < 75000000 then ''minor league sports team '' @ [CHR 0xE2, CHR 0x9A, CHR 0xBE]
     else if n < 100000000 then ''professional sports team '' @ [CHR 0xF0, CHR 0x9F, CHR 0x8F, CHR 0x88]
     else if n < 200000000 then ''skyscraper '' @ [CHR 0xF0, CHR 0x9F, CHR 0x8F, CHR 0xA2]
     else if n < 300000000 then ''cruise ship '' @ [CHR 0xF0, CHR 0x9F, CHR 0x9A, CHR 0xA2]
     else if n < 500000000 then ''space tourism ticket '' @ [CHR 0xF0, CHR 0x9F, CHR 0x9A, CHR 0x80]
     else if n < 750000000 then ''major hospital '' @ [CHR 0xF0, CHR 0x9F, CHR 0x8F, CHR 0xA5]
     else if n < 1000000000 then ''satellite constellation '' @ [CHR 0xF0, CHR 0x9F, CHR 0x9B, CHR 0xB0, CHR 0xEF, CHR 0xB8, CHR 0x8F]
     else if n < 5000000000 then ''nuclear power plant '' @ [CHR 0xE2, CHR 0x9A, CHR 0xA1]
     else if n < 10000000000 then ''An aircraft carrier '' @ [CHR 0xF0, CHR 0x9F, CHR 0x9A, CHR 0xA2]
     else ''small country'' @ [CHR 0x27] @ ''s GDP '' @ [CHR 0xF0, CHR 0x9F, CHR 0x8C, CHR 0x8D])"

text \<open>
  The reading of the classifier as data: the exclusive upper bounds in ascending order,
  each with the label of its bucket, the label for amounts that are not positive and the
  label for amounts that no bound exceeds.
\<close>

definition afford_sentinel :: string where
  "afford_sentinel = [CHR 0xE2, CHR 0x98, CHR 0xA0, CHR 0xEF, CHR 0xB8, CHR 0x8F]"

definition afford_catch_all :: string where
  "afford_catch_all = ''small country'' @ [CHR 0x27] @ ''s GDP '' @ [CHR 0xF0, CHR 0x9F, CHR 0x8C, CHR 0x8D]"

definition afford_table :: "(int \<times> string) list" where
  "afford_table =
    [(100, ''nice dinner for two '' @ [CHR 0xF0, CHR 0x9F, CHR 0x8D, CHR 0xBD, CHR 0xEF, CHR 0xB8, CHR 0x8F]),
     (200, ''pair of Nike shoes '' @ [CHR 0xF0, CHR 0x9F, CHR 0x91, CHR 0x9F]),
     (300, ''weekend hotel stay '' @ [CHR 0xF0, CHR 0x9F, CHR 0x8F, CHR 0xA8]),
     (500, ''budget smartphone '' @ [CHR 0xF0, CHR 0x9F, CHR 0x93, CHR 0xB1]),
     (750, ''round-trip domestic flight '' @ [CHR 0xE2, CHR 0x9C, CHR 0x88, CHR 0xEF, CHR 0xB8, CHR 0x8F]),
     (1000, ''month'' @ [CHR 0x27] @ ''s rent in a small town '' @ [CHR 0xF0, CHR 0x9F, CHR 0x8F, CHR 0xA0]),
     (2000, ''gaming console '' @ [CHR 0xF0, CHR 0x9F, CHR 0x8E, CHR 0xAE]),
     (3000, ''high-end laptop '' @ [CHR 0xF0, CHR 0x9F, CHR 0x92, CHR 0xBB]),
     (5000, ''used motorcycle '' @ [CHR 0xF0, CHR 0x9F, CHR 0x8F, CHR 0x8D, CHR 0xEF, CHR 0xB8, CHR 0x8F]),
     (7500, ''home theater system '' @ [CHR 0xF0, CHR 0x9F, CHR 0x93, CHR 0xBA]),
     (10000, ''semester at community college '' @ [CHR 0xF0, CHR 0x9F, CHR 0x8E, CHR 0x93]),
     (25000, ''decent used car '' @ [CHR 0xF0, CHR 0x9F, CHR 0x9A, CHR 0x97]),
     (35000, ''new economy car '' @ [CHR 0xF0, CHR 0x9F, CHR 0x9A, CHR 0x99]),
     (50000, ''wedding celebration '' @ [CHR 0xF0, CHR 0x9F, CHR 0x92, CHR 0x92]),
     (75000, ''year at private university '' @ [CHR 0xF0, CHR 0x9F, CHR 0x8E, CHR 0x93]),
     (100000, ''Tesla Model 3 '' @ [CHR 0xF0, CHR 0x9F, CHR 0x9A, CHR 0x98]),
     (150000, ''mobile home '' @ [CHR 0xF0, CHR 0x9F, CHR 0x8F, CHR 0xA0]),
     (250000, ''small apartment in suburbs '' @ [CHR 0xF0, CHR 0x9F, CHR 0x8F, CHR 0xA2]),
     (350000, ''condo in a major city '' @ [CHR 0xF0, CHR 0x9F, CHR 0x8C, CHR 0x83]),
     (500000, ''nice house in most cities '' @ [CHR 0xF0, CHR 0x9F, CHR 0x8F, CHR 0xA1]),
     (750000, ''beach house '' @ [CHR 0xF0, CHR 0x9F, CHR 0x8F, CHR 0x96, CHR 0xEF, CHR 0xB8, CHR 0x8F]),
     (1500000, ''luxury yacht '' @ [CHR 0xE2, CHR 0x9B, CHR 0xB5]),
     (2000000, ''Bugatti supercar '' @ [CHR 0xF0, CHR 0x9F, CHR 0x8F, CHR 0x8E, CHR 0xEF, CHR 0xB8, CHR 0x8F]),
     (3000000, ''penthouse apartment '' @ [CHR 0xF0, CHR 0x9F, CHR 0x8F, CHR 0x99, CHR 0xEF, CHR 0xB8, CHR 0x8F]),
     (5000000, ''private jet share '' @ [CHR 0xE2, CHR 0x9C, CHR 0x88, CHR 0xEF, CHR 0xB8, CHR 0x8F]),
     (7500000, ''small vineyard '' @ [CHR 0xF0, CHR 0x9F, CHR 0x8D, CHR 0x87]),
     (10000000, ''mansion in Beverly Hills '' @ [CHR 0xF0, CHR 0x9F, CHR 0x8F, CHR 0xB0]),
     (20000000, ''private jet '' @ [CHR 0xE2, CHR 0x9C, CHR 0x88, CHR 0xEF, CHR 0xB8, CHR 0x8F]),
     (30000000, ''luxury hotel '' @ [CHR 0xF0, CHR 0x9F, CHR 0x8F, CHR 0xA8]),
     (50000000, ''private island '' @ [CHR 0xF0, CHR 0x9F, CHR 0x8F, CHR 0x9D, CHR 0xEF, CHR 0xB8, CHR 0x8F]),
     (75000000, ''minor league sports team '' @ [CHR 0xE2, CHR 0x9A, CHR 0xBE]),
     (100000000, ''professional sports team '' @ [CHR 0xF0, CHR 0x9F, CHR 0x8F, CHR 0x88]),
     (200000000, ''skyscraper '' @ [CHR 0xF0, CHR 0x9F, CHR 0x8F, CHR 0xA2]),
     (300000000, ''cruise ship '' @ [CHR 0xF0, CHR 0x9F, CHR 0x9A, CHR 0xA2]),
     (500000000, ''space tourism ticket '' @ [CHR 0xF0, CHR 0x9F, CHR 0x9A, CHR 0x80]),
     (750000000, ''major hospital '' @ [CHR 0xF0, CHR 0x9F, CHR 0x8F, CHR 0xA5]),
     (1000000000, ''satellite constellation '' @ [CHR 0xF0, CHR 0x9F, CHR 0x9B, CHR 0xB0, CHR 0xEF, CHR 0xB8, CHR 0x8F]),
     (5000000000, ''nuclear power plant '' @ [CHR 0xE2, CHR 0x9A, CHR 0xA1]),
     (10000000000, ''An aircraft carrier '' @ [CHR 0xF0, CHR 0x9F, CHR 0x9A, CHR 0xA2])]"

fun first_above :: "int \<Rightarrow> (int \<times> string) list \<Rightarrow> string" where
  "first_above n [] = afford_catch_all"
| "first_above n ((b, l) # t) = (if n < b then l else first_above n t)"

text \<open>
  The classifier as the specification words it: an amount that is not positive gets the
  sentinel; otherwise the first bound of the table strictly greater than the amount
  gives the label, and the catch-all label is given when there is no such bound.
\<close>

definition classify :: "int \<Rightarrow> string" where
  "classify amount =
     (if amount \<le> 0 then afford_sentinel
      else (case find (\<lambda>(b, l). amount < b) afford_table of
              None \<Rightarrow> afford_catch_all
            | Some (b, l) \<Rightarrow> l))"

subsection \<open>get\_income\_groups (lines 179--203)\<close>

text \<open>
  \<^verbatim>\<open>"{}".format(i)\<close> on a Python \<^verbatim>\<open>int\<close> that \<^verbatim>\<open>range\<close> yields (never negative) writes
  its decimal digits, most significant first, with no leading zero.
\<close>

definition digit_char :: "nat \<Rightarrow> char" where
  "digit_char d = ''0123456789'' ! d"

function str_nat :: "nat \<Rightarrow> string" where
  "str_nat n = (if n < 10 then [digit_char n] else str_nat (n div 10) @ [digit_char (n mod 10)])"
  by pat_completeness auto
termination
  by (relation "measure id") auto

declare str_nat.simps [simp del]

definition format_pp :: "nat \<Rightarrow> nat \<Rightarrow> string" where
  \<comment> \<open>\<^verbatim>\<open>"p{}p{}".format(a, b)\<close>\<close>
  "format_pp a b = ''p'' @ str_nat a @ ''p'' @ str_nat b"

definition key_groups :: "string list" where
  "key_groups =
     [''p0p100'', ''p0p50'', ''p50p90'', ''p90p99'', ''p99p100'', ''p99.99p100'']
     @ map (\<lambda>i. format_pp (i * 10) ((i + 1) * 10)) [0..<10]"

definition detailed_p_groups :: "string list" where
  "detailed_p_groups =
     map (\<lambda>i. format_pp i (i + 1)) [0..<99]
     @ [''p99p99.1'', ''p99.1p99.2'', ''p99.2p99.3'', ''p99.3p99.4'', ''p99.4p99.5'',
        ''p99.5p99.6'', ''p99.6p99.7'', ''p99.7p99.8'', ''p99.8p99.9'']
     @ [''p99.9p99.91'', ''p99.91p99.92'', ''p99.92p99.93'', ''p99.93p99.94'',
        ''p99.94p99.95'', ''p99.95p99.96'', ''p99.96p99.97'', ''p99.97p99.98'',
        ''p99.98p99.99'']
     @ [''p99.99p99.991'', ''p99.991p99.992'', ''p99.992p99.993'', ''p99.993p99.994'',
        ''p99.994p99.995'', ''p99.995p99.996'', ''p99.996p99.997'', ''p99.997p99.998'',
        ''p99.998p99.999'']
     @ [''p99.999p100'']"

definition detailed_top_groups :: "string list" where
  "detailed_top_groups = map (\<lambda>i. format_pp i 100) [0..<100]"

text \<open>
  The \<^verbatim>\<open>dict\<close> keeps its keys in insertion order (\<^verbatim>\<open>main\<close> lists them), so it is an
  association list; \<^verbatim>\<open>groups[group_name]\<close> raises \<^verbatim>\<open>KeyError\<close> on a name that is not a key.
\<close>

definition get_income_groups :: "(string \<times> string list) list" where
  "get_income_groups =
     [(''key_groups'', key_groups),
      (''detailed_p_groups'', detailed_p_groups),
      (''detailed_top_groups'', detailed_top_groups)]"

definition groups_getitem :: "(string \<times> string list) list \<Rightarrow> string \<Rightarrow> error + string list" where
  "groups_getitem groups group_name =
     (case map_of groups group_name of None \<Rightarrow> Inl KeyError | Some labels \<Rightarrow> Inr labels)"

subsection \<open>parse\_percentile (lines 151--153)\<close>

text \<open>
  \<^verbatim>\<open>x.strip("p")\<close> removes every leading and every trailing \<^verbatim>\<open>p\<close>; \<^verbatim>\<open>.split("p")\<close> cuts
  at each remaining \<^verbatim>\<open>p\<close> and always yields at least one piece (the empty string
  yields one empty piece).
\<close>

definition py_strip :: "char \<Rightarrow> string \<Rightarrow> string" where
  "py_strip c s = rev (dropWhile (\<lambda>x. x = c) (rev (dropWhile (\<lambda>x. x = c) s)))"

fun py_split :: "char \<Rightarrow> string \<Rightarrow> string list" where
  "py_split c [] = [[]]"
| "py_split c (x # xs) =
     (if x = c then [] # py_split c xs
      else (case py_split c xs of [] \<Rightarrow> [[x]] | w # ws \<Rightarrow> (x # w) # ws))"

text \<open>
  \<^verbatim>\<open>float\<close> is Python's builtin: it is a parameter \<open>fl\<close> that gives \<open>None\<close> where
  \<^verbatim>\<open>float\<close> raises \<^verbatim>\<open>ValueError\<close>. \<^verbatim>\<open>tuple(map(float, parts))\<close> converts the pieces from
  left to right and the first failure is raised; the tuple, whose length is the number
  of pieces, is a list.
\<close>

fun map_float :: "(string \<Rightarrow> 'a option) \<Rightarrow> string list \<Rightarrow> error + 'a list" where
  "map_float fl [] = Inr []"
| "map_float fl (s # ss) =
     (case fl s of
        None \<Rightarrow> Inl ValueError
      | Some v \<Rightarrow> (case map_float fl ss of Inl e \<Rightarrow> Inl e | Inr vs \<Rightarrow> Inr (v # vs)))"

definition parse_percentile :: "(string \<Rightarrow> 'a option) \<Rightarrow> string \<Rightarrow> error + 'a list" where
  "parse_percentile fl x = map_float fl (py_split CHR ''p'' (py_strip CHR ''p'' x))"

text \<open>
  An instance of \<open>fl\<close> for plain decimal literals: digits, with at most one point and at
  least one digit, as \<^verbatim>\<open>float\<close> reads them (\<^verbatim>\<open>"99"\<close>, \<^verbatim>\<open>"99.9"\<close>, \<^verbatim>\<open>"99."\<close>, \<^verbatim>\<open>".5"\<close>), valued
  exactly. Every number written in a label of the catalog is of this form. Python's
  \<^verbatim>\<open>float\<close> also reads signs, exponents, underscores, surrounding blanks, \<^verbatim>\<open>inf\<close> and
  \<^verbatim>\<open>nan\<close>; this instance gives \<open>None\<close> on them and is used on catalog labels and in
  closed instances only.
\<close>

definition digit_val :: "char \<Rightarrow> nat option" where
  "digit_val c =
     map_of [(CHR ''0'', 0), (CHR ''1'', 1), (CHR ''2'', 2), (CHR ''3'', 3), (CHR ''4'', 4),
             (CHR ''5'', 5), (CHR ''6'', 6), (CHR ''7'', 7), (CHR ''8'', 8), (CHR ''9'', 9)] c"

fun digits_val :: "nat \<Rightarrow> string \<Rightarrow> nat option" where
  "digits_val acc [] = Some acc"
| "digits_val acc (c # cs) =
     (case digit_val c of None \<Rightarrow> None | Some d \<Rightarrow> digits_val (10 * acc + d) cs)"

definition float_decimal :: "string \<Rightarrow> rat option" where
  "float_decimal s =
     (let ip = takeWhile (\<lambda>c. c \<noteq> CHR ''.'') s;
          fp = drop 1 (dropWhile (\<lambda>c. c \<noteq> CHR ''.'') s)
      in if ip = [] \<and> fp = [] then None
         else (case (digits_val 0 ip, digits_val 0 fp) of
                 (Some i, Some f) \<Rightarrow> Some (of_nat i + of_nat f / 10 ^ length fp)
               | _ \<Rightarrow> None))"

text \<open>
  The invariant of a label as a check that computes: the label parses into exactly two
  numbers, a lower and an upper end, with \<open>0 \<le> lower < upper \<le> 100\<close>.
\<close>

definition band_ok :: "string \<Rightarrow> bool" where
  "band_ok l =
     (case parse_percentile float_decimal l of
        Inr [lo, hi] \<Rightarrow> 0 \<le> lo \<and> lo < hi \<and> hi \<le> 100
      | _ \<Rightarrow> False)"

subsection \<open>Python numbers in the summary: int, float, and the builtins on them\<close>

text \<open>
  A float is an IEEE 754 binary64 value. A cell of a numeric column, and the conversion
  rate read from JSON, is an \<^verbatim>\<open>int\<close> or a \<^verbatim>\<open>float\<close>.
\<close>

datatype pyfloat = Finite rat | PosInf | NegInf | NaN

datatype pynum = PyInt int | PyFloat pyfloat

text \<open>
  Rounding a rational to the nearest binary64 value, ties to the even significand: the
  result of every float operation and of reading a literal. \<open>floor_log2 q\<close> is the
  exponent \<open>e\<close> with \<open>2 ^ e \<le> q < 2 ^ (e + 1)\<close> for \<open>q > 0\<close>; the significand has 53 bits
  and the least exponent is -1022, below which the spacing stays \<open>2 ^ -1074\<close>; a
  rounded magnitude of \<open>2 ^ 1024\<close> or more is an overflow.
\<close>

function bit_length :: "nat \<Rightarrow> nat" where
  "bit_length n = (if n = 0 then 0 else Suc (bit_length (n div 2)))"
  by pat_completeness auto
termination
  by (relation "measure id") auto

declare bit_length.simps [simp del]

definition floor_log2 :: "rat \<Rightarrow> int" where
  "floor_log2 q =
     (if 1 \<le> q then int (bit_length (nat \<lfloor>q\<rfloor>)) - 1
      else - int (bit_length (nat (\<lceil>1 / q\<rceil> - 1))))"

definition pow2 :: "int \<Rightarrow> rat" where
  "pow2 k = (if 0 \<le> k then 2 ^ nat k else 1 / 2 ^ nat (- k))"

definition round_half_even :: "rat \<Rightarrow> int" where
  "round_half_even x =
     (let f = \<lfloor>x\<rfloor>; d = x - of_int f
      in if d < 1 / 2 then f
         else if 1 / 2 < d then f + 1
         else if even f then f else f + 1)"

definition round_double :: "rat \<Rightarrow> pyfloat" where
  "round_double q =
     (if q = 0 then Finite 0
      else (let e = max (floor_log2 \<bar>q\<bar>) (- 1022);
                u = pow2 (e - 52);
                v = of_int (round_half_even (\<bar>q\<bar> / u)) * u
            in if 2 ^ 1024 \<le> v then (if 0 < q then PosInf else NegInf)
               else Finite (if 0 < q then v else - v)))"

text \<open>A float literal of the source is the binary64 value nearest to what is written.\<close>

definition float_literal :: "rat \<Rightarrow> pyfloat" where
  "float_literal q = round_double q"

text \<open>
  \<^verbatim>\<open>==\<close> on floats, as the elementwise comparison of a float column with a number
  applies it: NaN is equal to nothing.
\<close>

definition float_eq :: "pyfloat \<Rightarrow> pyfloat \<Rightarrow> bool" where
  "float_eq a b = (a \<noteq> NaN \<and> b \<noteq> NaN \<and> a = b)"

text \<open>
  \<^verbatim>\<open>int(x)\<close> on a cell: an integer cell is its value; a float is cut towards zero;
  NaN raises \<^verbatim>\<open>ValueError\<close> and an infinity raises \<^verbatim>\<open>OverflowError\<close>.
\<close>

definition py_int :: "pynum \<Rightarrow> error + int" where
  "py_int x =
     (case x of
        PyInt i \<Rightarrow> Inr i
      | PyFloat (Finite q) \<Rightarrow> Inr (if 0 \<le> q then \<lfloor>q\<rfloor> else \<lceil>q\<rceil>)
      | PyFloat NaN \<Rightarrow> Inl ValueError
      | PyFloat PosInf \<Rightarrow> Inl OverflowError
      | PyFloat NegInf \<Rightarrow> Inl OverflowError)"

text \<open>
  \<^verbatim>\<open>a / b\<close> with \<open>a\<close> an \<^verbatim>\<open>int\<close>. By an \<^verbatim>\<open>int\<close>: a zero divisor raises
  \<^verbatim>\<open>ZeroDivisionError\<close>, otherwise the exact quotient is rounded once, and a quotient too
  large for a float raises \<^verbatim>\<open>OverflowError\<close>. By a \<^verbatim>\<open>float\<close>: \<open>a\<close> is converted first
  (\<^verbatim>\<open>OverflowError\<close> when too large), then a zero divisor raises \<^verbatim>\<open>ZeroDivisionError\<close>, and
  the float division raises nothing else: NaN gives NaN, an infinite divisor gives zero
  and an overflow gives an infinity.
\<close>

definition py_truediv :: "int \<Rightarrow> pynum \<Rightarrow> error + pyfloat" where
  "py_truediv a b =
     (case b of
        PyInt k \<Rightarrow>
          (if k = 0 then Inl ZeroDivisionError
           else (case round_double (of_int a / of_int k) of
                   Finite q \<Rightarrow> Inr (Finite q)
                 | _ \<Rightarrow> Inl OverflowError))
      | PyFloat y \<Rightarrow>
          (case round_double (of_int a) of
             Finite x \<Rightarrow>
               (case y of
                  Finite d \<Rightarrow>
                    (if d = 0 then Inl ZeroDivisionError else Inr (round_double (x / d)))
                | NaN \<Rightarrow> Inr NaN
                | _ \<Rightarrow> Inr (Finite 0))
           | _ \<Rightarrow> Inl OverflowError))"

text \<open>
  \<^verbatim>\<open>round(x)\<close> on a float: the nearest integer, the even one on a tie; NaN raises
  \<^verbatim>\<open>ValueError\<close> and an infinity raises \<^verbatim>\<open>OverflowError\<close>.
\<close>

definition py_round :: "pyfloat \<Rightarrow> error + int" where
  "py_round x =
     (case x of
        Finite q \<Rightarrow> Inr (round_half_even q)
      | NaN \<Rightarrow> Inl ValueError
      | _ \<Rightarrow> Inl OverflowError)"

subsection \<open>filter\_data (lines 206--212) and the no-data check of main (lines 67--72)\<close>

text \<open>
  A row of the country's data frame, with the columns the functions read. The
  \<^verbatim>\<open>percentile\<close> column holds the label of the band.
\<close>

record observation =
  variable :: string
  year :: int
  percentile :: string
  "value" :: rat

text \<open>
  A boolean mask keeps the rows where it holds, in the frame's order. The third mask
  is built by \<^verbatim>\<open>apply\<close>, which calls the lambda once for each row that is left: only
  then is \<^verbatim>\<open>groups[group_name]\<close> evaluated, so a name that is not a key of the catalog
  raises \<^verbatim>\<open>KeyError\<close> when a row is left and raises nothing when none is.
\<close>

definition filter_data ::
  "observation list \<Rightarrow> string \<Rightarrow> int \<Rightarrow> string \<Rightarrow> error + observation list" where
  "filter_data df0 variable' year' group_name =
     (let groups = get_income_groups;
          df1 = filter (\<lambda>r. variable r = variable') df0;
          df2 = filter (\<lambda>r. year r = year') df1
      in if df2 = [] then Inr []
         else (case groups_getitem groups group_name of
                 Inl e \<Rightarrow> Inl e
               | Inr labels \<Rightarrow> Inr (filter (\<lambda>r. percentile r \<in> set labels) df2)))"

text \<open>
  \<^verbatim>\<open>main\<close> after the filter: on an empty frame it shows \<^verbatim>\<open>st.error("No data available")\<close>
  and ends the run with \<^verbatim>\<open>st.stop()\<close>; otherwise it goes on with the frame.
\<close>

datatype 'a stage = Stopped string | Proceed 'a

definition main_filter_stage ::
  "observation list \<Rightarrow> string \<Rightarrow> int \<Rightarrow> string \<Rightarrow> error + observation list stage" where
  "main_filter_stage df variable' year' group_name =
     (case filter_data df variable' year' group_name of
        Inl e \<Rightarrow> Inl e
      | Inr filtered_df \<Rightarrow>
          Inr (if length filtered_df = 0 then Stopped ''No data available''
               else Proceed filtered_df))"

text \<open>A small frame for closed instances: two variables, two years, bands of two groups.\<close>

definition sample_df :: "observation list" where
  "sample_df =
     [\<lparr>variable = ''aptincj992'', year = 2021, percentile = ''p0p50'', value = 1000\<rparr>,
      \<lparr>variable = ''aptincj992'', year = 2021, percentile = ''p0p1'', value = 10\<rparr>,
      \<lparr>variable = ''aptincj992'', year = 2020, percentile = ''p0p50'', value = 900\<rparr>,
      \<lparr>variable = ''ahwealj992'', year = 2021, percentile = ''p90p100'', value = 5000\<rparr>,
      \<lparr>variable = ''aptincj992'', year = 2021, percentile = ''p90p100'', value = 7000\<rparr>]"

subsection \<open>get\_locale (lines 162--169)\<close>

text \<open>
  The functions of the formatting library are parameters. \<open>locale_parse\<close> gives \<open>None\<close>
  where \<^verbatim>\<open>babel.Locale.parse\<close> raises \<^verbatim>\<open>UnknownLocaleError\<close>; a locale is its identifier.
  They are taken to return: no other failure of the library is modelled.
\<close>

record babel =
  get_official_languages :: "string \<Rightarrow> string list"
  locale_parse :: "string \<Rightarrow> string option"
  format_compact_currency :: "int \<Rightarrow> string \<Rightarrow> string \<Rightarrow> string"

definition get_locale :: "babel \<Rightarrow> string \<Rightarrow> string \<Rightarrow> string" where
  "get_locale lib country_code currency =
     (case get_official_languages lib country_code of
        [] \<Rightarrow> ''en_US''
      | l # ls \<Rightarrow>
          (case locale_parse lib (last (l # ls) @ ''_'' @ country_code) of
             None \<Rightarrow> ''en_US''
           | Some locale \<Rightarrow> locale))"

subsection \<open>prepare\_summary\_data (lines 215--253)\<close>

text \<open>
  The frame that \<^verbatim>\<open>main\<close> passes has two columns: \<^verbatim>\<open>percentile\<close>, by then the lower end
  of the band as a float, and \<^verbatim>\<open>value\<close>. Of the metadata only the \<^verbatim>\<open>unit\<close> column is read.
  A record of the result has the keys of the source; the key \<^verbatim>\<open>percentile\<close> holds the
  label of the cutoff.
\<close>

record band_row =
  percentile_lower :: pyfloat
  band_value :: pynum

record meta =
  meta_variable :: string
  unit :: string

record summary =
  percentile_label :: string
  value_usd :: int
  usd :: string
  local :: string
  afford :: string

text \<open>
  The cutoffs 1 to 99 are written as \<^verbatim>\<open>int\<close>s and compared with the float column as the
  floats of the same value; 99.9, 99.99 and 99.999 are float literals.
\<close>

definition percentile_cutoffs :: "(pyfloat \<times> string) list" where
  "percentile_cutoffs =
     [(Finite 1, ''Bottom 1%''),
      (Finite 5, ''Bottom 5%''),
      (Finite 10, ''Bottom 10%''),
      (Finite 50, ''Middle 50%''),
      (Finite 90, ''Top 10%''),
      (Finite 95, ''Top 5%''),
      (Finite 99, ''Top 1%''),
      (float_literal (999 / 10), ''Top 0.1%''),
      (float_literal (9999 / 100), ''Top 0.01%''),
      (float_literal (99999 / 1000), ''Top 0.001%'')]"

text \<open>
  One pass of the loop body, in the order of the source: \<^verbatim>\<open>.values[0]\<close> is the value of
  the first row at the cutoff and raises \<^verbatim>\<open>IndexError\<close> when there is none; then \<^verbatim>\<open>int\<close>,
  the local format, the division, \<^verbatim>\<open>round\<close> and the format in USD. The first exception
  ends the pass.
\<close>

definition summary_record ::
  "babel \<Rightarrow> band_row list \<Rightarrow> string \<Rightarrow> string \<Rightarrow> pynum \<Rightarrow> pyfloat \<times> string
     \<Rightarrow> error + summary" where
  "summary_record lib df currency country_code conversion_rate cl =
     (case cl of (cutoff, label) \<Rightarrow>
       (case filter (\<lambda>r. float_eq (percentile_lower r) cutoff) df of
          [] \<Rightarrow> Inl IndexError
        | r # _ \<Rightarrow>
            (case py_int (band_value r) of
               Inl e \<Rightarrow> Inl e
             | Inr value' \<Rightarrow>
                 (let locale = get_locale lib country_code currency;
                      fmt_local = format_compact_currency lib value' currency locale
                  in case py_truediv value' conversion_rate of
                       Inl e \<Rightarrow> Inl e
                     | Inr ratio \<Rightarrow>
                         (case py_round ratio of
                            Inl e \<Rightarrow> Inl e
                          | Inr value_usd' \<Rightarrow>
                              (let fmt_usd =
                                     format_compact_currency lib value_usd' ''USD'' ''en_US''
                               in Inr \<lparr>percentile_label = label,
                                       value_usd = value_usd',
                                       usd = fmt_usd,
                                       local = fmt_local,
                                       afford = get_afford value_usd'\<rparr>))))))"

fun summary_loop ::
  "babel \<Rightarrow> band_row list \<Rightarrow> string \<Rightarrow> string \<Rightarrow> pynum \<Rightarrow> (pyfloat \<times> string) list
     \<Rightarrow> summary list \<Rightarrow> error + summary list" where
  "summary_loop lib df currency country_code conversion_rate [] records = Inr records"
| "summary_loop lib df currency country_code conversion_rate (cl # rest) records =
     (case summary_record lib df currency country_code conversion_rate cl of
        Inl e \<Rightarrow> Inl e
      | Inr record \<Rightarrow>
          summary_loop lib df currency country_code conversion_rate rest (records @ [record]))"

definition prepare_summary_data ::
  "babel \<Rightarrow> band_row list \<Rightarrow> meta list \<Rightarrow> string \<Rightarrow> pynum \<Rightarrow> error + summary list" where
  "prepare_summary_data lib df var_meta country_code conversion_rate =
     (case var_meta of
        [] \<Rightarrow> Inl IndexError
      | m # _ \<Rightarrow>
          summary_loop lib df (unit m) country_code conversion_rate percentile_cutoffs [])"

text \<open>
  Closed instances: a formatting library that knows no official language (every locale
  is then \<^verbatim>\<open>en_US\<close>) and shows an amount as its currency code, and the frame with one
  row for each of the ten cutoffs, valued 1, 5, 10, 50, 90, 95, 99, 999, 9999, 99999;
  \<open>cell\<close> makes the cell of a value: \<open>PyInt\<close> for an integer column, \<open>float_cell\<close> for
  a float column.
\<close>

definition plain_babel :: babel where
  "plain_babel =
     \<lparr>get_official_languages = (\<lambda>country_code. []),
      locale_parse = (\<lambda>identifier. None),
      format_compact_currency = (\<lambda>number currency locale. currency)\<rparr>"

definition float_cell :: "int \<Rightarrow> pynum" where
  "float_cell v = PyFloat (Finite (of_int v))"

definition ten_cutoffs_df :: "(int \<Rightarrow> pynum) \<Rightarrow> band_row list" where
  "ten_cutoffs_df cell =
     [\<lparr>percentile_lower = Finite 1, band_value = cell 1\<rparr>,
      \<lparr>percentile_lower = Finite 5, band_value = cell 5\<rparr>,
      \<lparr>percentile_lower = Finite 10, band_value = cell 10\<rparr>,
      \<lparr>percentile_lower = Finite 50, band_value = cell 50\<rparr>,
      \<lparr>percentile_lower = Finite 90, band_value = cell 90\<rparr>,
      \<lparr>percentile_lower = Finite 95, band_value = cell 95\<rparr>,
      \<lparr>percentile_lower = Finite 99, band_value = cell 99\<rparr>,
      \<lparr>percentile_lower = float_literal (999 / 10), band_value = cell 999\<rparr>,
      \<lparr>percentile_lower = float_literal (9999 / 100), band_value = cell 9999\<rparr>,
      \<lparr>percentile_lower = float_literal (99999 / 1000), band_value = cell 99999\<rparr>]"

section \<open>Properties\<close>

subsection \<open>The affordability classifier\<close>

lemma first_above_find:
  "first_above n t =
     (case find (\<lambda>(b, l). n < b) t of None \<Rightarrow> afford_catch_all | Some (b, l) \<Rightarrow> l)"
  by (induction t) auto

lemma get_afford_first_above:
  "get_afford n = (if n \<le> 0 then afford_sentinel else first_above n afford_table)"
  by (simp add: get_afford_def afford_table_def afford_sentinel_def afford_catch_all_def)

lemma get_afford_beyond: "10000000000 \<le> m \<Longrightarrow> get_afford m = afford_catch_all"
  by (simp add: get_afford_def afford_catch_all_def)

lemma afford_labels_distinct:
  "distinct (afford_sentinel # map snd afford_table @ [afford_catch_all])"
  by (simp add: afford_table_def afford_sentinel_def afford_catch_all_def)

text \<open>
  Claim C3. \<^verbatim>\<open>get_afford\<close> returns a label for every integer and raises nothing. An
  amount that is not positive gets the sentinel label. A positive amount gets the label
  of the first exclusive upper bound strictly greater than it, the bounds being exactly
  100, 200, 300, 500, 750, 1000, ..., 5000000000, 10000000000 in ascending order, and
  the single catch-all label when no bound is greater, that is from 10000000000 on. The
  labels of the buckets differ from each other, so every bound is a change of label.
  In particular 0 and -5 get the same label, 99 and 100 get different labels, and
  10000000000 and 50000000000 get the same label.
\<close>

theorem get_afford_classifier:
  "get_afford n = classify n
   \<and> (a \<le> 0 \<longrightarrow> get_afford a = afford_sentinel)
   \<and> map fst afford_table =
       [100, 200, 300, 500, 750, 1000, 2000, 3000, 5000, 7500, 10000, 25000, 35000,
        50000, 75000, 100000, 150000, 250000, 350000, 500000, 750000, 1500000, 2000000,
        3000000, 5000000, 7500000, 10000000, 20000000, 30000000, 50000000, 75000000,
        100000000, 200000000, 300000000, 500000000, 750000000, 1000000000, 5000000000,
        10000000000]
   \<and> sorted_wrt (<) (map fst afford_table)
   \<and> distinct (afford_sentinel # map snd afford_table @ [afford_catch_all])
   \<and> (10000000000 \<le> m \<longrightarrow> get_afford m = afford_catch_all)
   \<and> get_afford 0 = get_afford (- 5)
   \<and> get_afford 99 \<noteq> get_afford 100
   \<and> get_afford 10000000000 = get_afford 50000000000"
proof -
  have table: "get_afford n = classify n"
    by (simp add: get_afford_first_above classify_def first_above_find)
  have low: "a \<le> 0 \<longrightarrow> get_afford a = afford_sentinel"
    by (simp add: get_afford_first_above)
  have bounds: "map fst afford_table =
       [100, 200, 300, 500, 750, 1000, 2000, 3000, 5000, 7500, 10000, 25000, 35000,
        50000, 75000, 100000, 150000, 250000, 350000, 500000, 750000, 1500000, 2000000,
        3000000, 5000000, 7500000, 10000000, 20000000, 30000000, 50000000, 75000000,
        100000000, 200000000, 300000000, 500000000, 750000000, 1000000000, 5000000000,
        10000000000]"
    by (simp add: afford_table_def)
  have ascending: "sorted_wrt (<) (map fst afford_table)"
    unfolding bounds by simp
  have same_low: "get_afford 0 = get_afford (- 5)"
    by (simp add: get_afford_first_above)
  have differ: "get_afford 99 \<noteq> get_afford 100"
    by (simp add: get_afford_def)
  have same_high: "get_afford 10000000000 = get_afford 50000000000"
    by (simp add: get_afford_beyond)
  from table low bounds ascending afford_labels_distinct get_afford_beyond [of m]
    same_low differ same_high
  show ?thesis by blast
qed

theorem get_afford_classifier_witness:
  "get_afford 150 = classify 150
   \<and> (- 5 \<le> (0::int) \<and> get_afford (- 5) = afford_sentinel)
   \<and> ((10000000000::int) \<le> 50000000000 \<and> get_afford 50000000000 = afford_catch_all)
   \<and> get_afford 150 = ''pair of Nike shoes '' @ [CHR 0xF0, CHR 0x9F, CHR 0x91, CHR 0x9F]"
proof -
  have "get_afford 150 = ''pair of Nike shoes '' @ [CHR 0xF0, CHR 0x9F, CHR 0x91, CHR 0x9F]"
    by (simp add: get_afford_def)
  with get_afford_classifier [of 150 "- 5" 50000000000] show ?thesis
    by simp
qed

subsection \<open>The catalog of percentile groups\<close>

lemma str_nat_digit: "n < 10 \<Longrightarrow> str_nat n = [digit_char n]"
  by (simp add: str_nat.simps)

lemma str_nat_step: "10 \<le> n \<Longrightarrow> str_nat n = str_nat (n div 10) @ [digit_char (n mod 10)]"
  by (subst str_nat.simps) simp

lemma deciles_eval:
  "map (\<lambda>i. format_pp (i * 10) ((i + 1) * 10)) [0..<10] =
     [''p0p10'', ''p10p20'', ''p20p30'', ''p30p40'', ''p40p50'',
      ''p50p60'', ''p60p70'', ''p70p80'', ''p80p90'', ''p90p100'']"
  by (simp add: upt_conv_Cons format_pp_def str_nat_step str_nat_digit digit_char_def
      del: upt_Suc)

lemma units_eval:
  "map (\<lambda>i. format_pp i (i + 1)) [0..<99] =
     [''p0p1'', ''p1p2'', ''p2p3'', ''p3p4'', ''p4p5'', ''p5p6'', ''p6p7'',
      ''p7p8'', ''p8p9'', ''p9p10'', ''p10p11'', ''p11p12'', ''p12p13'', ''p13p14'',
      ''p14p15'', ''p15p16'', ''p16p17'', ''p17p18'', ''p18p19'', ''p19p20'',
      ''p20p21'', ''p21p22'', ''p22p23'', ''p23p24'', ''p24p25'', ''p25p26'',
      ''p26p27'', ''p27p28'', ''p28p29'', ''p29p30'', ''p30p31'', ''p31p32'',
      ''p32p33'', ''p33p34'', ''p34p35'', ''p35p36'', ''p36p37'', ''p37p38'',
      ''p38p39'', ''p39p40'', ''p40p41'', ''p41p42'', ''p42p43'', ''p43p44'',
      ''p44p45'', ''p45p46'', ''p46p47'', ''p47p48'', ''p48p49'', ''p49p50'',
      ''p50p51'', ''p51p52'', ''p52p53'', ''p53p54'', ''p54p55'', ''p55p56'',
      ''p56p57'', ''p57p58'', ''p58p59'', ''p59p60'', ''p60p61'', ''p61p62'',
      ''p62p63'', ''p63p64'', ''p64p65'', ''p65p66'', ''p66p67'', ''p67p68'',
      ''p68p69'', ''p69p70'', ''p70p71'', ''p71p72'', ''p72p73'', ''p73p74'',
      ''p74p75'', ''p75p76'', ''p76p77'', ''p77p78'', ''p78p79'', ''p79p80'',
      ''p80p81'', ''p81p82'', ''p82p83'', ''p83p84'', ''p84p85'', ''p85p86'',
      ''p86p87'', ''p87p88'', ''p88p89'', ''p89p90'', ''p90p91'', ''p91p92'',
      ''p92p93'', ''p93p94'', ''p94p95'', ''p95p96'', ''p96p97'', ''p97p98'',
      ''p98p99'']"
  by (simp add: upt_conv_Cons format_pp_def str_nat_step str_nat_digit digit_char_def
      del: upt_Suc)

lemma tops_eval:
  "map (\<lambda>i. format_pp i 100) [0..<100] =
     [''p0p100'', ''p1p100'', ''p2p100'', ''p3p100'', ''p4p100'', ''p5p100'',
      ''p6p100'', ''p7p100'', ''p8p100'', ''p9p100'', ''p10p100'', ''p11p100'',
      ''p12p100'', ''p13p100'', ''p14p100'', ''p15p100'', ''p16p100'', ''p17p100'',
      ''p18p100'', ''p19p100'', ''p20p100'', ''p21p100'', ''p22p100'', ''p23p100'',
      ''p24p100'', ''p25p100'', ''p26p100'', ''p27p100'', ''p28p100'', ''p29p100'',
      ''p30p100'', ''p31p100'', ''p32p100'', ''p33p100'', ''p34p100'', ''p35p100'',
      ''p36p100'', ''p37p100'', ''p38p100'', ''p39p100'', ''p40p100'', ''p41p100'',
      ''p42p100'', ''p43p100'', ''p44p100'', ''p45p100'', ''p46p100'', ''p47p100'',
      ''p48p100'', ''p49p100'', ''p50p100'', ''p51p100'', ''p52p100'', ''p53p100'',
      ''p54p100'', ''p55p100'', ''p56p100'', ''p57p100'', ''p58p100'', ''p59p100'',
      ''p60p100'', ''p61p100'', ''p62p100'', ''p63p100'', ''p64p100'', ''p65p100'',
      ''p66p100'', ''p67p100'', ''p68p100'', ''p69p100'', ''p70p100'', ''p71p100'',
      ''p72p100'', ''p73p100'', ''p74p100'', ''p75p100'', ''p76p100'', ''p77p100'',
      ''p78p100'', ''p79p100'', ''p80p100'', ''p81p100'', ''p82p100'', ''p83p100'',
      ''p84p100'', ''p85p100'', ''p86p100'', ''p87p100'', ''p88p100'', ''p89p100'',
      ''p90p100'', ''p91p100'', ''p92p100'', ''p93p100'', ''p94p100'', ''p95p100'',
      ''p96p100'', ''p97p100'', ''p98p100'', ''p99p100'']"
  by (simp add: upt_conv_Cons format_pp_def str_nat_step str_nat_digit digit_char_def
      del: upt_Suc)

text \<open>
  Claim C4. The catalog has exactly the three groups \<^verbatim>\<open>key_groups\<close>, \<^verbatim>\<open>detailed_p_groups\<close>
  and \<^verbatim>\<open>detailed_top_groups\<close>, in this order, of 16, 127 and 100 labels. The 16 are the
  6 named splits followed by the 10 decile bands \<^verbatim>\<open>p0p10\<close> to \<^verbatim>\<open>p90p100\<close>; the 127 are the
  99 unit bands \<^verbatim>\<open>p0p1\<close> to \<^verbatim>\<open>p98p99\<close>, then 9 tenth bands, 9 hundredth bands,
  9 thousandth bands and the single band \<^verbatim>\<open>p99.999p100\<close>; the 100 are \<^verbatim>\<open>p0p100\<close> to
  \<^verbatim>\<open>p99p100\<close>. Every label is written out.
\<close>

theorem get_income_groups_sizes:
  "(let named = [''p0p100'', ''p0p50'', ''p50p90'', ''p90p99'', ''p99p100'',
                 ''p99.99p100''];
        deciles = [''p0p10'', ''p10p20'', ''p20p30'', ''p30p40'', ''p40p50'',
                   ''p50p60'', ''p60p70'', ''p70p80'', ''p80p90'', ''p90p100''];
        units = [''p0p1'', ''p1p2'', ''p2p3'', ''p3p4'', ''p4p5'', ''p5p6'',
                 ''p6p7'', ''p7p8'', ''p8p9'', ''p9p10'', ''p10p11'', ''p11p12'',
                 ''p12p13'', ''p13p14'', ''p14p15'', ''p15p16'', ''p16p17'',
                 ''p17p18'', ''p18p19'', ''p19p20'', ''p20p21'', ''p21p22'',
                 ''p22p23'', ''p23p24'', ''p24p25'', ''p25p26'', ''p26p27'',
                 ''p27p28'', ''p28p29'', ''p29p30'', ''p30p31'', ''p31p32'',
                 ''p32p33'', ''p33p34'', ''p34p35'', ''p35p36'', ''p36p37'',
                 ''p37p38'', ''p38p39'', ''p39p40'', ''p40p41'', ''p41p42'',
                 ''p42p43'', ''p43p44'', ''p44p45'', ''p45p46'', ''p46p47'',
                 ''p47p48'', ''p48p49'', ''p49p50'', ''p50p51'', ''p51p52'',
                 ''p52p53'', ''p53p54'', ''p54p55'', ''p55p56'', ''p56p57'',
                 ''p57p58'', ''p58p59'', ''p59p60'', ''p60p61'', ''p61p62'',
                 ''p62p63'', ''p63p64'', ''p64p65'', ''p65p66'', ''p66p67'',
                 ''p67p68'', ''p68p69'', ''p69p70'', ''p70p71'', ''p71p72'',
                 ''p72p73'', ''p73p74'', ''p74p75'', ''p75p76'', ''p76p77'',
                 ''p77p78'', ''p78p79'', ''p79p80'', ''p80p81'', ''p81p82'',
                 ''p82p83'', ''p83p84'', ''p84p85'', ''p85p86'', ''p86p87'',
                 ''p87p88'', ''p88p89'', ''p89p90'', ''p90p91'', ''p91p92'',
                 ''p92p93'', ''p93p94'', ''p94p95'', ''p95p96'', ''p96p97'',
                 ''p97p98'', ''p98p99''];
        tenths = [''p99p99.1'', ''p99.1p99.2'', ''p99.2p99.3'', ''p99.3p99.4'',
                  ''p99.4p99.5'', ''p99.5p99.6'', ''p99.6p99.7'', ''p99.7p99.8'',
                  ''p99.8p99.9''];
        hundredths = [''p99.9p99.91'', ''p99.91p99.92'', ''p99.92p99.93'',
                      ''p99.93p99.94'', ''p99.94p99.95'', ''p99.95p99.96'',
                      ''p99.96p99.97'', ''p99.97p99.98'', ''p99.98p99.99''];
        thousandths = [''p99.99p99.991'', ''p99.991p99.992'', ''p99.992p99.993'',
                       ''p99.993p99.994'', ''p99.994p99.995'', ''p99.995p99.996'',
                       ''p99.996p99.997'', ''p99.997p99.998'', ''p99.998p99.999''];
        last_band = [''p99.999p100''];
        tops = [''p0p100'', ''p1p100'', ''p2p100'', ''p3p100'', ''p4p100'',
                ''p5p100'', ''p6p100'', ''p7p100'', ''p8p100'', ''p9p100'',
                ''p10p100'', ''p11p100'', ''p12p100'', ''p13p100'', ''p14p100'',
                ''p15p100'', ''p16p100'', ''p17p100'', ''p18p100'', ''p19p100'',
                ''p20p100'', ''p21p100'', ''p22p100'', ''p23p100'', ''p24p100'',
                ''p25p100'', ''p26p100'', ''p27p100'', ''p28p100'', ''p29p100'',
                ''p30p100'', ''p31p100'', ''p32p100'', ''p33p100'', ''p34p100'',
                ''p35p100'', ''p36p100'', ''p37p100'', ''p38p100'', ''p39p100'',
                ''p40p100'', ''p41p100'', ''p42p100'', ''p43p100'', ''p44p100'',
                ''p45p100'', ''p46p100'', ''p47p100'', ''p48p100'', ''p49p100'',
                ''p50p100'', ''p51p100'', ''p52p100'', ''p53p100'', ''p54p100'',
                ''p55p100'', ''p56p100'', ''p57p100'', ''p58p100'', ''p59p100'',
                ''p60p100'', ''p61p100'', ''p62p100'', ''p63p100'', ''p64p100'',
                ''p65p100'', ''p66p100'', ''p67p100'', ''p68p100'', ''p69p100'',
                ''p70p100'', ''p71p100'', ''p72p100'', ''p73p100'', ''p74p100'',
                ''p75p100'', ''p76p100'', ''p77p100'', ''p78p100'', ''p79p100'',
                ''p80p100'', ''p81p100'', ''p82p100'', ''p83p100'', ''p84p100'',
                ''p85p100'', ''p86p100'', ''p87p100'', ''p88p100'', ''p89p100'',
                ''p90p100'', ''p91p100'', ''p92p100'', ''p93p100'', ''p94p100'',
                ''p95p100'', ''p96p100'', ''p97p100'', ''p98p100'', ''p99p100'']
    in get_income_groups =
         [(''key_groups'', named @ deciles),
          (''detailed_p_groups'', units @ tenths @ hundredths @ thousandths @ last_band),
          (''detailed_top_groups'', tops)]
       \<and> map length [named, deciles] = [6, 10]
       \<and> map length [units, tenths, hundredths, thousandths, last_band] = [99, 9, 9, 9, 1]
       \<and> length tops = 100)
   \<and> map fst get_income_groups = [''key_groups'', ''detailed_p_groups'', ''detailed_top_groups'']
   \<and> map (length \<circ> snd) get_income_groups = [16, 127, 100]"
  unfolding Let_def get_income_groups_def key_groups_def detailed_p_groups_def
    detailed_top_groups_def deciles_eval units_eval tops_eval
  by simp

subsection \<open>The filter\<close>

lemma catalog_lookup:
  "(g, labels) \<in> set get_income_groups \<Longrightarrow> map_of get_income_groups g = Some labels"
  by (rule map_of_is_SomeI) (simp_all add: get_income_groups_def)

lemma filter_data_valid:
  assumes "map_of get_income_groups g = Some labels"
  shows "filter_data df v y g =
     Inr (filter (\<lambda>r. variable r = v \<and> year r = y \<and> percentile r \<in> set labels) df)"
proof -
  let ?df2 = "filter (\<lambda>r. year r = y) (filter (\<lambda>r. variable r = v) df)"
  have masks: "filter (\<lambda>r. percentile r \<in> set labels) ?df2 =
      filter (\<lambda>r. variable r = v \<and> year r = y \<and> percentile r \<in> set labels) df"
    by (simp add: conj_commute conj_left_commute)
  show ?thesis
  proof (cases "?df2 = []")
    case True
    with masks
    have "filter (\<lambda>r. variable r = v \<and> year r = y \<and> percentile r \<in> set labels) df = []"
      by (metis filter.simps(1))
    with True show ?thesis by (simp add: filter_data_def)
  next
    case False
    with assms masks show ?thesis
      by (simp add: filter_data_def groups_getitem_def)
  qed
qed

lemma key_groups_eval:
  "key_groups =
     [''p0p100'', ''p0p50'', ''p50p90'', ''p90p99'', ''p99p100'', ''p99.99p100'',
      ''p0p10'', ''p10p20'', ''p20p30'', ''p30p40'', ''p40p50'',
      ''p50p60'', ''p60p70'', ''p70p80'', ''p80p90'', ''p90p100'']"
  unfolding key_groups_def deciles_eval by simp

lemma key_groups_in_catalog: "(''key_groups'', key_groups) \<in> set get_income_groups"
  by (simp add: get_income_groups_def)

text \<open>
  Claim C5. For every data frame, variable, year and group name of the catalog,
  \<^verbatim>\<open>filter_data\<close> returns a frame; every row of it has the requested variable and the
  requested year and a percentile label that is in the catalog's list for the group;
  and its rows are exactly the rows of the input with these three properties.
\<close>

theorem filter_data_rows:
  assumes "(g, labels) \<in> set get_income_groups"
  shows "\<exists>res. filter_data df v y g = Inr res
     \<and> (\<forall>r \<in> set res. variable r = v \<and> year r = y \<and> percentile r \<in> set labels)
     \<and> set res = {r \<in> set df. variable r = v \<and> year r = y \<and> percentile r \<in> set labels}"
  using filter_data_valid [OF catalog_lookup [OF assms], of df v y] by auto

theorem filter_data_rows_witness:
  "(''key_groups'', key_groups) \<in> set get_income_groups
   \<and> filter_data sample_df ''aptincj992'' 2021 ''key_groups'' =
       Inr [\<lparr>variable = ''aptincj992'', year = 2021, percentile = ''p0p50'', value = 1000\<rparr>,
            \<lparr>variable = ''aptincj992'', year = 2021, percentile = ''p90p100'', value = 7000\<rparr>]
   \<and> (\<exists>res. filter_data sample_df ''aptincj992'' 2021 ''key_groups'' = Inr res
        \<and> (\<forall>r \<in> set res. variable r = ''aptincj992'' \<and> year r = 2021
              \<and> percentile r \<in> set key_groups)
        \<and> set res = {r \<in> set sample_df. variable r = ''aptincj992'' \<and> year r = 2021
              \<and> percentile r \<in> set key_groups})"
proof -
  have run: "filter_data sample_df ''aptincj992'' 2021 ''key_groups'' =
       Inr [\<lparr>variable = ''aptincj992'', year = 2021, percentile = ''p0p50'', value = 1000\<rparr>,
            \<lparr>variable = ''aptincj992'', year = 2021, percentile = ''p90p100'', value = 7000\<rparr>]"
    by (simp add: filter_data_def sample_df_def groups_getitem_def get_income_groups_def
        key_groups_eval)
  from key_groups_in_catalog run
    filter_data_rows [OF key_groups_in_catalog, of sample_df "''aptincj992''" 2021]
  show ?thesis by blast
qed

text \<open>
  Claim C9. When no row of the frame has both the requested variable and the requested
  year, \<^verbatim>\<open>filter_data\<close> returns the empty frame and raises nothing, whatever the group
  name is; \<^verbatim>\<open>main\<close> then reports "No data available" and stops the run instead of
  failing.
\<close>

theorem filter_data_no_match:
  assumes "\<forall>r \<in> set df. \<not> (variable r = v \<and> year r = y)"
  shows "filter_data df v y g = Inr []
     \<and> main_filter_stage df v y g = Inr (Stopped ''No data available'')"
proof -
  have "filter (\<lambda>r. year r = y) (filter (\<lambda>r. variable r = v) df) = []"
    using assms by (auto simp: filter_empty_conv)
  then have "filter_data df v y g = Inr []"
    by (simp add: filter_data_def)
  then show ?thesis
    by (simp add: main_filter_stage_def)
qed

theorem filter_data_no_match_witness:
  "filter (\<lambda>r. variable r = ''aptincj992'' \<and> year r = 1999) sample_df = []
   \<and> filter_data sample_df ''aptincj992'' 1999 ''key_groups'' = Inr []
   \<and> main_filter_stage sample_df ''aptincj992'' 1999 ''no_such_group'' =
       Inr (Stopped ''No data available'')"
proof -
  have none: "\<forall>r \<in> set sample_df. \<not> (variable r = ''aptincj992'' \<and> year r = 1999)"
    by (simp add: sample_df_def)
  from none have "filter (\<lambda>r. variable r = ''aptincj992'' \<and> year r = 1999) sample_df = []"
    by (simp add: filter_empty_conv)
  with filter_data_no_match [OF none, of "''key_groups''"]
    filter_data_no_match [OF none, of "''no_such_group''"]
  show ?thesis by blast
qed

text \<open>
  Claim C10. For every data frame and every group name of the catalog, the result of
  \<^verbatim>\<open>filter_data\<close> is a function of its inputs: it is the input's rows that have the
  requested variable, the requested year and a label of the group, each kept once and
  in the order of the input, so it is a subsequence of the input.
\<close>

theorem filter_data_order:
  assumes "(g, labels) \<in> set get_income_groups"
  shows "filter_data df v y g =
       Inr (filter (\<lambda>r. variable r = v \<and> year r = y \<and> percentile r \<in> set labels) df)
     \<and> subseq (filter (\<lambda>r. variable r = v \<and> year r = y \<and> percentile r \<in> set labels) df) df"
  using filter_data_valid [OF catalog_lookup [OF assms], of df v y] by simp

theorem filter_data_order_witness:
  "(''key_groups'', key_groups) \<in> set get_income_groups
   \<and> filter_data (rev sample_df) ''aptincj992'' 2021 ''key_groups'' =
       Inr [\<lparr>variable = ''aptincj992'', year = 2021, percentile = ''p90p100'', value = 7000\<rparr>,
            \<lparr>variable = ''aptincj992'', year = 2021, percentile = ''p0p50'', value = 1000\<rparr>]"
proof -
  have "filter (\<lambda>r. variable r = ''aptincj992'' \<and> year r = 2021 \<and> percentile r \<in> set key_groups)
          (rev sample_df) =
       [\<lparr>variable = ''aptincj992'', year = 2021, percentile = ''p90p100'', value = 7000\<rparr>,
        \<lparr>variable = ''aptincj992'', year = 2021, percentile = ''p0p50'', value = 1000\<rparr>]"
    by (simp add: sample_df_def key_groups_eval)
  with key_groups_in_catalog
    filter_data_order [OF key_groups_in_catalog, of "rev sample_df" "''aptincj992''" 2021]
  show ?thesis by simp
qed

subsection \<open>The percentile parser\<close>

lemma py_split_no_sep: "c \<notin> set s \<Longrightarrow> py_split c s = [s]"
  by (induction s) auto

lemma py_split_at_sep: "c \<notin> set a \<Longrightarrow> py_split c (a @ c # b) = a # py_split c b"
  by (induction a) auto

lemma py_split_not_Nil: "py_split c s \<noteq> []"
  by (induction s) (auto split: list.splits)

lemma length_py_split: "length (py_split c s) = Suc (count_list s c)"
proof (induction s)
  case Nil
  show ?case by simp
next
  case (Cons x xs)
  then show ?case
    using py_split_not_Nil [of c xs] by (cases "py_split c xs") auto
qed

lemma dropWhile_no_sep: "s \<noteq> [] \<Longrightarrow> c \<notin> set s \<Longrightarrow> dropWhile (\<lambda>x. x = c) (s @ t) = s @ t"
  by (cases s) auto

lemma py_strip_label:
  assumes "a \<noteq> []" "b \<noteq> []" "c \<notin> set a" "c \<notin> set b"
  shows "py_strip c (c # a @ c # b) = a @ c # b"
proof -
  have front: "dropWhile (\<lambda>x. x = c) (c # a @ c # b) = a @ c # b"
    using assms by (simp add: dropWhile_no_sep)
  have rear: "dropWhile (\<lambda>x. x = c) (rev b @ c # rev a) = rev b @ c # rev a"
    using assms by (intro dropWhile_no_sep) auto
  show ?thesis
    unfolding py_strip_def front by (simp add: rear)
qed

lemma pieces_of_label:
  assumes "a \<noteq> []" "b \<noteq> []" "CHR ''p'' \<notin> set a" "CHR ''p'' \<notin> set b"
  shows "py_split CHR ''p'' (py_strip CHR ''p'' (CHR ''p'' # a @ CHR ''p'' # b)) = [a, b]"
  using assms by (simp add: py_strip_label py_split_at_sep py_split_no_sep)

lemma map_float_Inl: "map_float fl ss = Inl e \<Longrightarrow> e = ValueError"
  by (induction ss arbitrary: e) (auto split: option.splits sum.splits)

lemma map_float_fails_iff: "(\<exists>e. map_float fl ss = Inl e) \<longleftrightarrow> (\<exists>s \<in> set ss. fl s = None)"
  by (induction ss) (auto split: option.splits sum.splits)

lemma map_float_Inr: "\<forall>s \<in> set ss. fl s \<noteq> None \<Longrightarrow> map_float fl ss = Inr (map (the \<circ> fl) ss)"
  by (induction ss) (auto split: option.splits sum.splits)

text \<open>
  Claim C8. For every label \<^verbatim>\<open>p<a>p<b>\<close> whose components \<open>a\<close> and \<open>b\<close> are numeric
  (\<^verbatim>\<open>float\<close> reads them) and, the label being well formed, are not empty and hold no
  further \<^verbatim>\<open>p\<close>, \<^verbatim>\<open>parse_percentile\<close> returns exactly the pair \<^verbatim>\<open>(float(a), float(b))\<close>. The
  parser is a function of the label alone.
\<close>

theorem parse_percentile_well_formed:
  assumes "fl a = Some lo" "fl b = Some hi"
    and "a \<noteq> []" "b \<noteq> []" "CHR ''p'' \<notin> set a" "CHR ''p'' \<notin> set b"
  shows "parse_percentile fl (''p'' @ a @ ''p'' @ b) = Inr [lo, hi]"
  using assms(1,2) pieces_of_label [OF assms(3-6)] by (simp add: parse_percentile_def)

theorem parse_percentile_well_formed_witness:
  "float_decimal ''50'' = Some 50 \<and> float_decimal ''90'' = Some 90
   \<and> ''50'' \<noteq> [] \<and> ''90'' \<noteq> [] \<and> CHR ''p'' \<notin> set ''50'' \<and> CHR ''p'' \<notin> set ''90''
   \<and> parse_percentile float_decimal ''p50p90'' = Inr [50, 90]"
proof -
  have numeric: "float_decimal ''50'' = Some 50" "float_decimal ''90'' = Some 90"
    by (simp_all add: float_decimal_def digit_val_def)
  from numeric parse_percentile_well_formed [OF numeric] show ?thesis
    by simp
qed

text \<open>
  Claim C2, as the code has it. The pieces of a label are what is left between the
  \<^verbatim>\<open>p\<close>s once every leading and trailing \<^verbatim>\<open>p\<close> is stripped; there is one piece more than
  there are \<^verbatim>\<open>p\<close>s inside. \<^verbatim>\<open>parse_percentile\<close> fails, with \<^verbatim>\<open>ValueError\<close>, exactly when
  some piece is not numeric; otherwise it returns the numbers of all the pieces, however
  many they are. It checks no count of pieces: a label with no \<^verbatim>\<open>p\<close> inside gives a
  tuple of one number and a label with more than one gives three or more. No default
  value is ever returned.
\<close>

theorem parse_percentile_failure:
  "parse_percentile fl x =
     (if \<exists>s \<in> set (py_split CHR ''p'' (py_strip CHR ''p'' x)). fl s = None
      then Inl ValueError
      else Inr (map (the \<circ> fl) (py_split CHR ''p'' (py_strip CHR ''p'' x))))
   \<and> length (py_split CHR ''p'' (py_strip CHR ''p'' x))
       = Suc (count_list (py_strip CHR ''p'' x) CHR ''p'')"
proof -
  let ?ps = "py_split CHR ''p'' (py_strip CHR ''p'' x)"
  show ?thesis
  proof (cases "\<exists>s \<in> set ?ps. fl s = None")
    case True
    then obtain e where "map_float fl ?ps = Inl e"
      using map_float_fails_iff [of fl ?ps] by blast
    with True show ?thesis
      by (auto simp: parse_percentile_def length_py_split dest: map_float_Inl)
  next
    case False
    then show ?thesis
      by (simp add: parse_percentile_def length_py_split map_float_Inr)
  qed
qed

theorem parse_percentile_failure_witness:
  "(\<exists>s \<in> set (py_split CHR ''p'' (py_strip CHR ''p'' ''p50px'')). float_decimal s = None)
   \<and> parse_percentile float_decimal ''p50px'' = Inl ValueError
   \<and> parse_percentile float_decimal ''p50pp90'' = Inl ValueError
   \<and> parse_percentile float_decimal ''p1p2p3'' = Inr [1, 2, 3]"
  using parse_percentile_failure [of float_decimal "''p50px''"]
    parse_percentile_failure [of float_decimal "''p50pp90''"]
    parse_percentile_failure [of float_decimal "''p1p2p3''"]
  by (simp add: py_strip_def float_decimal_def digit_val_def)

text \<open>
  The claim as the specification states it fails: a label with no \<^verbatim>\<open>p\<close> inside and a
  label with two \<^verbatim>\<open>p\<close>s inside, all pieces numeric, are parsed without an error.
\<close>

theorem parse_percentile_arity_counterexample:
  "count_list (py_strip CHR ''p'' ''p50'') CHR ''p'' = 0
   \<and> parse_percentile float_decimal ''p50'' = Inr [50]
   \<and> count_list (py_strip CHR ''p'' ''p1p2p3'') CHR ''p'' = 2
   \<and> parse_percentile float_decimal ''p1p2p3'' = Inr [1, 2, 3]"
  by (simp add: parse_percentile_def py_strip_def float_decimal_def digit_val_def)

subsection \<open>The labels of the catalog are bands\<close>

lemma digit_char_cases:
  "d < 10 \<Longrightarrow> d = 0 \<or> d = 1 \<or> d = 2 \<or> d = 3 \<or> d = 4 \<or> d = 5 \<or> d = 6 \<or> d = 7 \<or> d = 8 \<or> d = (9::nat)"
  by arith

lemma digit_val_digit_char: "d < 10 \<Longrightarrow> digit_val (digit_char d) = Some d"
  using digit_char_cases [of d] by (auto simp: digit_val_def digit_char_def)

lemma digit_char_plain: "d < 10 \<Longrightarrow> digit_char d \<noteq> CHR ''p'' \<and> digit_char d \<noteq> CHR ''.''"
  using digit_char_cases [of d] by (auto simp: digit_char_def)

lemma digits_val_append:
  "digits_val acc (xs @ ys) =
     (case digits_val acc xs of None \<Rightarrow> None | Some v \<Rightarrow> digits_val v ys)"
  by (induction xs arbitrary: acc) (auto split: option.splits)

lemma digits_val_str_nat: "digits_val 0 (str_nat n) = Some n"
proof (induction n rule: str_nat.induct)
  case (1 n)
  show ?case
  proof (cases "n < 10")
    case True
    then show ?thesis by (simp add: str_nat_digit digit_val_digit_char)
  next
    case False
    then have unfold: "str_nat n = str_nat (n div 10) @ [digit_char (n mod 10)]"
      by (simp add: str_nat_step)
    from 1 [OF False] show ?thesis
      unfolding unfold by (simp add: digits_val_append digit_val_digit_char)
  qed
qed

lemma str_nat_plain: "str_nat n \<noteq> [] \<and> CHR ''p'' \<notin> set (str_nat n) \<and> CHR ''.'' \<notin> set (str_nat n)"
proof (induction n rule: str_nat.induct)
  case (1 n)
  show ?case
  proof (cases "n < 10")
    case True
    then have "str_nat n = [digit_char n]"
      by (rule str_nat_digit)
    with digit_char_plain [OF True] show ?thesis
      by auto
  next
    case False
    then have unfold: "str_nat n = str_nat (n div 10) @ [digit_char (n mod 10)]"
      by (simp add: str_nat_step)
    have "digit_char (n mod 10) \<noteq> CHR ''p'' \<and> digit_char (n mod 10) \<noteq> CHR ''.''"
      by (rule digit_char_plain) simp
    with 1 [OF False] show ?thesis
      unfolding unfold by auto
  qed
qed

lemma float_decimal_str_nat: "float_decimal (str_nat n) = Some (of_nat n)"
proof -
  have nodot: "\<forall>c \<in> set (str_nat n). c \<noteq> CHR ''.''"
    using str_nat_plain [of n] by blast
  then have whole: "takeWhile (\<lambda>c. c \<noteq> CHR ''.'') (str_nat n) = str_nat n"
    and rest: "dropWhile (\<lambda>c. c \<noteq> CHR ''.'') (str_nat n) = []"
    by simp_all
  show ?thesis
    using str_nat_plain [of n]
    by (simp add: float_decimal_def Let_def whole rest digits_val_str_nat)
qed

lemma parse_format_pp:
  "parse_percentile float_decimal (format_pp a b) = Inr [of_nat a, of_nat b]"
  using str_nat_plain [of a] str_nat_plain [of b]
  by (simp add: parse_percentile_def format_pp_def pieces_of_label float_decimal_str_nat)

lemma band_okD:
  "band_ok l \<Longrightarrow> \<exists>lo hi. parse_percentile float_decimal l = Inr [lo, hi] \<and> 0 \<le> lo \<and> lo < hi \<and> hi \<le> 100"
  by (auto simp: band_ok_def split: sum.splits list.splits)

lemma band_ok_format_pp: "a < b \<Longrightarrow> b \<le> 100 \<Longrightarrow> band_ok (format_pp a b)"
  by (simp add: band_ok_def parse_format_pp)

lemma named:
  "list_all band_ok [''p0p100'', ''p0p50'', ''p50p90'', ''p90p99'', ''p99p100'', ''p99.99p100'']"
  by (simp add: band_ok_def parse_percentile_def py_strip_def float_decimal_def digit_val_def)


lemma tenths:
  "list_all band_ok [''p99p99.1'', ''p99.1p99.2'', ''p99.2p99.3'', ''p99.3p99.4'', ''p99.4p99.5'',
        ''p99.5p99.6'', ''p99.6p99.7'', ''p99.7p99.8'', ''p99.8p99.9'']"
  by (simp add: band_ok_def parse_percentile_def py_strip_def float_decimal_def digit_val_def)
lemma hundredths:
  "list_all band_ok [''p99.9p99.91'', ''p99.91p99.92'', ''p99.92p99.93'', ''p99.93p99.94'',
          ''p99.94p99.95'', ''p99.95p99.96'', ''p99.96p99.97'', ''p99.97p99.98'',
          ''p99.98p99.99'']"
  by (simp add: band_ok_def parse_percentile_def py_strip_def float_decimal_def digit_val_def)
lemma thousandths:
  "list_all band_ok [''p99.99p99.991'', ''p99.991p99.992'', ''p99.992p99.993'', ''p99.993p99.994'',
          ''p99.994p99.995'', ''p99.995p99.996'', ''p99.996p99.997'', ''p99.997p99.998'',
          ''p99.998p99.999'']"
  by (simp add: band_ok_def parse_percentile_def py_strip_def float_decimal_def digit_val_def)

lemma last_band: "list_all band_ok [''p99.999p100'']"
  by (simp add: band_ok_def parse_percentile_def py_strip_def float_decimal_def digit_val_def)

lemma deciles_ok: "list_all band_ok (map (\<lambda>i. format_pp (i * 10) ((i + 1) * 10)) [0..<10])"
  by (simp add: list_all_iff band_ok_format_pp)

lemma units_ok: "list_all band_ok (map (\<lambda>i. format_pp i (i + 1)) [0..<99])"
  by (simp add: list_all_iff band_ok_format_pp)

lemma key_groups_ok: "list_all band_ok key_groups"
  unfolding key_groups_def list_all_append
  by (intro conjI named deciles_ok)

lemma detailed_p_groups_ok: "list_all band_ok detailed_p_groups"
  unfolding detailed_p_groups_def list_all_append
  by (intro conjI units_ok tenths hundredths thousandths last_band)

lemma detailed_top_groups_ok: "list_all band_ok detailed_top_groups"
  by (simp add: detailed_top_groups_def list_all_iff band_ok_format_pp)

text \<open>
  Claim C7. Every label of every group of the catalog is parsed by \<^verbatim>\<open>parse_percentile\<close>
  into a pair \<open>(lower, upper)\<close> with \<open>0 \<le> lower < upper \<le> 100\<close>. The numbers are the
  decimal values written in the label.
\<close>

theorem catalog_labels_are_bands:
  "\<forall>(name, labels) \<in> set get_income_groups. \<forall>l \<in> set labels.
     \<exists>lo hi. parse_percentile float_decimal l = Inr [lo, hi]
       \<and> 0 \<le> lo \<and> lo < hi \<and> hi \<le> 100"
proof -
  have "\<forall>(name, labels) \<in> set get_income_groups. \<forall>l \<in> set labels. band_ok l"
    using key_groups_ok detailed_p_groups_ok detailed_top_groups_ok
    by (simp add: get_income_groups_def list_all_iff)
  then show ?thesis
    by (blast dest: band_okD)
qed

theorem catalog_labels_are_bands_witness:
  "(''key_groups'', key_groups) \<in> set get_income_groups
   \<and> ''p99.99p100'' \<in> set key_groups
   \<and> parse_percentile float_decimal ''p99.99p100'' = Inr [9999 / 100, 100]
   \<and> (\<exists>lo hi. parse_percentile float_decimal ''p99.99p100'' = Inr [lo, hi]
         \<and> 0 \<le> lo \<and> lo < hi \<and> hi \<le> 100)"
proof -
  have member: "''p99.99p100'' \<in> set key_groups"
    by (simp add: key_groups_def)
  have parsed: "parse_percentile float_decimal ''p99.99p100'' = Inr [9999 / 100, 100]"
    by (simp add: parse_percentile_def py_strip_def float_decimal_def digit_val_def)
  from catalog_labels_are_bands key_groups_in_catalog
  have "\<forall>l \<in> set key_groups.
      \<exists>lo hi. parse_percentile float_decimal l = Inr [lo, hi] \<and> 0 \<le> lo \<and> lo < hi \<and> hi \<le> 100"
    by blast
  with member parsed key_groups_in_catalog show ?thesis
    by blast
qed

subsection \<open>The summary\<close>

lemma floor_numeral_quotient: "\<lfloor>numeral a / numeral b :: rat\<rfloor> = numeral a div numeral b"
  using floor_divide_of_int_eq [of "numeral a" "numeral b", where ?'a = rat] by simp

lemma floor_one_quotient: "\<lfloor>1 / numeral b :: rat\<rfloor> = 1 div numeral b"
  using floor_divide_of_int_eq [of 1 "numeral b", where ?'a = rat] by simp

lemma bit_length_0: "bit_length 0 = 0"
  by (simp add: bit_length.simps)

lemma bit_length_pos: "0 < n \<Longrightarrow> bit_length n = Suc (bit_length (n div 2))"
  by (subst bit_length.simps) simp

lemmas float_eval = round_double_def floor_log2_def pow2_def round_half_even_def Let_def
  floor_numeral_quotient floor_one_quotient bit_length_0 bit_length_pos

text \<open>
  The rounding at some known points: 0.1, a third, and the ties at \<open>2 ^ 53 + 1\<close> and
  \<open>2 ^ 53 + 3\<close>.
\<close>

lemma round_double_examples:
  "round_double (1 / 10) = Finite (3602879701896397 / 36028797018963968)"
  "round_double (- (1 / 3)) = Finite (- (6004799503160661 / 18014398509481984))"
  "round_double 9007199254740993 = Finite 9007199254740992"
  "round_double 9007199254740995 = Finite 9007199254740996"
  by (simp_all add: float_eval)

lemma float_literals:
  "float_literal (999 / 10) = Finite (3514918771674317 / 35184372088832)"
  "float_literal (9999 / 100) = Finite (7036170730324623 / 70368744177664)"
  "float_literal (99999 / 1000) = Finite (3518402024511111 / 35184372088832)"
  by (simp_all add: float_literal_def float_eval)

lemma doubles_of_values:
  "map round_double [1, 5, 10, 50, 90, 95, 99, 999, 9999, 99999] =
   map Finite [1, 5, 10, 50, 90, 95, 99, 999, 9999, 99999]"
  by (simp add: float_eval)

lemma doubles_of_halves:
  "map (\<lambda>v. round_double (v / 2)) [1, 5, 10, 50, 90, 95, 99, 999, 9999, 99999] =
   map (\<lambda>v. Finite (v / 2)) [1, 5, 10, 50, 90, 95, 99, 999, 9999, 99999]"
  by (simp add: float_eval)

lemma halves_rounded:
  "map (\<lambda>v. round_half_even (of_int v / 2)) [1, 5, 10, 50, 90, 95, 99, 999, 9999, 99999] =
   [0, 2, 5, 25, 45, 48, 50, 500, 5000, 50000]"
  by (simp add: round_half_even_def Let_def floor_numeral_quotient floor_one_quotient)

lemmas summary_eval = prepare_summary_data_def percentile_cutoffs_def summary_record_def
  float_eq_def float_literals py_int_def py_truediv_def py_round_def float_cell_def

lemma summary_record_IndexError_iff:
  "summary_record lib df cur cc rate cl = Inl IndexError
     \<longleftrightarrow> filter (\<lambda>r. float_eq (percentile_lower r) (fst cl)) df = []"
proof -
  have a: "py_int x \<noteq> Inl IndexError" for x
    by (simp add: py_int_def split: pynum.splits pyfloat.splits)
  have b: "py_truediv v rate \<noteq> Inl IndexError" for v
    by (simp add: py_truediv_def split: pynum.splits pyfloat.splits)
  have c: "py_round x \<noteq> Inl IndexError" for x
    by (simp add: py_round_def split: pyfloat.splits)
  show ?thesis
    using a b c
    by (auto simp: summary_record_def Let_def split: prod.splits list.splits sum.splits)
qed

lemma summary_loop_first_failure:
  "summary_loop lib df cur cc rate cs acc = Inl e \<longleftrightarrow>
     (\<exists>pre cl post. cs = pre @ cl # post
        \<and> (\<forall>x \<in> set pre. \<exists>s. summary_record lib df cur cc rate x = Inr s)
        \<and> summary_record lib df cur cc rate cl = Inl e)"
proof (induction cs arbitrary: acc)
  case Nil
  then show ?case by simp
next
  case (Cons c rest)
  show ?case
  proof (cases "summary_record lib df cur cc rate c")
    case (Inl e')
    have "(\<exists>pre cl post. c # rest = pre @ cl # post
        \<and> (\<forall>x \<in> set pre. \<exists>s. summary_record lib df cur cc rate x = Inr s)
        \<and> summary_record lib df cur cc rate cl = Inl e) \<longleftrightarrow> e' = e"
    proof
      assume "\<exists>pre cl post. c # rest = pre @ cl # post
        \<and> (\<forall>x \<in> set pre. \<exists>s. summary_record lib df cur cc rate x = Inr s)
        \<and> summary_record lib df cur cc rate cl = Inl e"
      then obtain pre cl post where parts: "c # rest = pre @ cl # post"
        and ok: "\<forall>x \<in> set pre. \<exists>s. summary_record lib df cur cc rate x = Inr s"
        and bad: "summary_record lib df cur cc rate cl = Inl e"
        by blast
      show "e' = e"
      proof (cases pre)
        case Nil
        with parts bad Inl show ?thesis by simp
      next
        case (Cons p ps)
        with parts have "p = c" by simp
        with Cons ok Inl show ?thesis by auto
      qed
    next
      assume "e' = e"
      with Inl have "c # rest = [] @ c # rest
        \<and> (\<forall>x \<in> set []. \<exists>s. summary_record lib df cur cc rate x = Inr s)
        \<and> summary_record lib df cur cc rate c = Inl e"
        by simp
      then show "\<exists>pre cl post. c # rest = pre @ cl # post
        \<and> (\<forall>x \<in> set pre. \<exists>s. summary_record lib df cur cc rate x = Inr s)
        \<and> summary_record lib df cur cc rate cl = Inl e"
        by blast
    qed
    with Inl show ?thesis by auto
  next
    case (Inr s)
    have "(\<exists>pre cl post. c # rest = pre @ cl # post
        \<and> (\<forall>x \<in> set pre. \<exists>s. summary_record lib df cur cc rate x = Inr s)
        \<and> summary_record lib df cur cc rate cl = Inl e) \<longleftrightarrow>
      (\<exists>pre cl post. rest = pre @ cl # post
        \<and> (\<forall>x \<in> set pre. \<exists>s. summary_record lib df cur cc rate x = Inr s)
        \<and> summary_record lib df cur cc rate cl = Inl e)"
    proof
      assume "\<exists>pre cl post. c # rest = pre @ cl # post
        \<and> (\<forall>x \<in> set pre. \<exists>s. summary_record lib df cur cc rate x = Inr s)
        \<and> summary_record lib df cur cc rate cl = Inl e"
      then obtain pre cl post where parts: "c # rest = pre @ cl # post"
        and ok: "\<forall>x \<in> set pre. \<exists>s. summary_record lib df cur cc rate x = Inr s"
        and bad: "summary_record lib df cur cc rate cl = Inl e"
        by blast
      show "\<exists>pre cl post. rest = pre @ cl # post
        \<and> (\<forall>x \<in> set pre. \<exists>s. summary_record lib df cur cc rate x = Inr s)
        \<and> summary_record lib df cur cc rate cl = Inl e"
      proof (cases pre)
        case Nil
        with parts bad Inr show ?thesis by simp
      next
        case (Cons p ps)
        with parts have "rest = ps @ cl # post" by simp
        moreover from Cons ok
        have "\<forall>x \<in> set ps. \<exists>s. summary_record lib df cur cc rate x = Inr s" by simp
        ultimately show ?thesis using bad by blast
      qed
    next
      assume "\<exists>pre cl post. rest = pre @ cl # post
        \<and> (\<forall>x \<in> set pre. \<exists>s. summary_record lib df cur cc rate x = Inr s)
        \<and> summary_record lib df cur cc rate cl = Inl e"
      then obtain pre cl post where parts: "rest = pre @ cl # post"
        and ok: "\<forall>x \<in> set pre. \<exists>s. summary_record lib df cur cc rate x = Inr s"
        and bad: "summary_record lib df cur cc rate cl = Inl e"
        by blast
      from parts have "c # rest = (c # pre) @ cl # post" by simp
      moreover from ok Inr
      have "\<forall>x \<in> set (c # pre). \<exists>s. summary_record lib df cur cc rate x = Inr s" by simp
      ultimately show "\<exists>pre cl post. c # rest = pre @ cl # post
        \<and> (\<forall>x \<in> set pre. \<exists>s. summary_record lib df cur cc rate x = Inr s)
        \<and> summary_record lib df cur cc rate cl = Inl e"
        using bad by blast
    qed
    with Inr Cons.IH [of "acc @ [s]"] show ?thesis by simp
  qed
qed

lemma summary_loop_fails:
  assumes "cl \<in> set cs" "summary_record lib df cur cc rate cl = Inl e"
  shows "\<exists>e'. summary_loop lib df cur cc rate cs acc = Inl e'"
  using assms(1)
proof (induction cs arbitrary: acc)
  case Nil
  then show ?case by simp
next
  case (Cons c rest)
  show ?case
  proof (cases "summary_record lib df cur cc rate c")
    case (Inl e')
    then show ?thesis by simp
  next
    case (Inr s)
    with assms(2) have "c \<noteq> cl" by auto
    with Cons.prems have "cl \<in> set rest" by simp
    from Cons.IH [OF this, of "acc @ [s]"] Inr show ?thesis by simp
  qed
qed

text \<open>
  Claim C6, as the code has it. When one of the ten cutoffs 1, 5, 10, 50, 90, 95, 99,
  99.9, 99.99, 99.999 has no row with exactly that percentile, \<^verbatim>\<open>prepare_summary_data\<close>
  fails: it returns no summary and skips no cutoff. The cutoffs are handled in order
  and the error raised is that of the first cutoff whose pass fails; that error is
  \<^verbatim>\<open>IndexError\<close> exactly when that cutoff is one with no row, and so it is \<^verbatim>\<open>IndexError\<close>
  whenever no pass fails with another error.
\<close>

theorem prepare_summary_data_missing_cutoff:
  assumes "c \<in> fst ` set percentile_cutoffs"
    and "\<forall>r \<in> set df. \<not> float_eq (percentile_lower r) c"
  shows "(\<exists>e. prepare_summary_data lib df var_meta cc rate = Inl e)
     \<and> (\<exists>pre cl post e.
           percentile_cutoffs = pre @ cl # post
           \<and> (\<forall>x \<in> set pre. \<exists>s. summary_record lib df (unit m) cc rate x = Inr s)
           \<and> summary_record lib df (unit m) cc rate cl = Inl e
           \<and> prepare_summary_data lib df (m # ms) cc rate = Inl e
           \<and> (e = IndexError \<longleftrightarrow> (\<forall>r \<in> set df. \<not> float_eq (percentile_lower r) (fst cl))))
     \<and> ((\<forall>cl \<in> set percentile_cutoffs. \<forall>e.
            summary_record lib df (unit m) cc rate cl = Inl e \<longrightarrow> e = IndexError)
          \<longrightarrow> prepare_summary_data lib df (m # ms) cc rate = Inl IndexError)"
proof -
  from assms(1) obtain l where listed: "(c, l) \<in> set percentile_cutoffs"
    by auto
  from assms(2) have "filter (\<lambda>r. float_eq (percentile_lower r) c) df = []"
    by (simp add: filter_empty_conv)
  then have missing: "summary_record lib df cur cc rate (c, l) = Inl IndexError" for cur
    by (simp add: summary_record_IndexError_iff)
  have fails: "\<exists>e. summary_loop lib df cur cc rate percentile_cutoffs [] = Inl e" for cur
    using summary_loop_fails [OF listed missing] .
  have first: "\<exists>e. prepare_summary_data lib df var_meta cc rate = Inl e"
    using fails by (cases var_meta) (simp_all add: prepare_summary_data_def)
  from fails obtain e where run: "summary_loop lib df (unit m) cc rate percentile_cutoffs [] = Inl e"
    by blast
  then obtain pre cl post where parts: "percentile_cutoffs = pre @ cl # post"
    and ok: "\<forall>x \<in> set pre. \<exists>s. summary_record lib df (unit m) cc rate x = Inr s"
    and bad: "summary_record lib df (unit m) cc rate cl = Inl e"
    using summary_loop_first_failure [of lib df "unit m" cc rate percentile_cutoffs "[]" e]
    by blast
  have result: "prepare_summary_data lib df (m # ms) cc rate = Inl e"
    using run by (simp add: prepare_summary_data_def)
  have kind: "e = IndexError \<longleftrightarrow> (\<forall>r \<in> set df. \<not> float_eq (percentile_lower r) (fst cl))"
    using bad summary_record_IndexError_iff [of lib df "unit m" cc rate cl]
    by (auto simp: filter_empty_conv)
  have second: "\<exists>pre cl post e.
           percentile_cutoffs = pre @ cl # post
           \<and> (\<forall>x \<in> set pre. \<exists>s. summary_record lib df (unit m) cc rate x = Inr s)
           \<and> summary_record lib df (unit m) cc rate cl = Inl e
           \<and> prepare_summary_data lib df (m # ms) cc rate = Inl e
           \<and> (e = IndexError \<longleftrightarrow> (\<forall>r \<in> set df. \<not> float_eq (percentile_lower r) (fst cl)))"
    using parts ok bad result kind by blast
  have third: "(\<forall>cl \<in> set percentile_cutoffs. \<forall>e.
            summary_record lib df (unit m) cc rate cl = Inl e \<longrightarrow> e = IndexError)
          \<longrightarrow> prepare_summary_data lib df (m # ms) cc rate = Inl IndexError"
  proof
    assume only: "\<forall>cl \<in> set percentile_cutoffs. \<forall>e.
            summary_record lib df (unit m) cc rate cl = Inl e \<longrightarrow> e = IndexError"
    have "cl \<in> set percentile_cutoffs"
      unfolding parts by simp
    with only bad have "e = IndexError" by blast
    with result show "prepare_summary_data lib df (m # ms) cc rate = Inl IndexError" by simp
  qed
  from first second third show ?thesis by blast
qed


theorem prepare_summary_data_missing_cutoff_witness:
  "Finite 5 \<in> fst ` set percentile_cutoffs
   \<and> filter (\<lambda>r. float_eq (percentile_lower r) (Finite 5)) [\<lparr>percentile_lower = Finite 1, band_value = PyFloat (Finite 1)\<rparr>] = []
   \<and> prepare_summary_data plain_babel [\<lparr>percentile_lower = Finite 1, band_value = PyFloat (Finite 1)\<rparr>] [\<lparr>meta_variable = ''aptincj992'', unit = ''INR''\<rparr>] ''IN'' (PyInt 2) = Inl IndexError"
proof -
  have listed: "Finite 5 \<in> fst ` set percentile_cutoffs"
    by (simp add: percentile_cutoffs_def)
  have absent: "\<forall>r \<in> set [\<lparr>percentile_lower = Finite 1, band_value = PyFloat (Finite 1)\<rparr>]. \<not> float_eq (percentile_lower r) (Finite 5)"
    by (simp add: float_eq_def)
  have half: "round_double (1 / 2) = Finite (1 / 2)"
    by (simp add: float_eval)
  have only: "\<forall>cl \<in> set percentile_cutoffs. \<forall>e.
      summary_record plain_babel [\<lparr>percentile_lower = Finite 1, band_value = PyFloat (Finite 1)\<rparr>] ''INR'' ''IN'' (PyInt 2) cl = Inl e \<longrightarrow> e = IndexError"
    using half by (simp add: summary_eval)
  from prepare_summary_data_missing_cutoff [OF listed absent, of plain_babel
      "[\<lparr>meta_variable = ''aptincj992'', unit = ''INR''\<rparr>]" "''IN''" "PyInt 2"
      "\<lparr>meta_variable = ''aptincj992'', unit = ''INR''\<rparr>" "[]"] only
  have "prepare_summary_data plain_babel [\<lparr>percentile_lower = Finite 1, band_value = PyFloat (Finite 1)\<rparr>] [\<lparr>meta_variable = ''aptincj992'', unit = ''INR''\<rparr>] ''IN'' (PyInt 2) = Inl IndexError"
    by simp
  with listed absent show ?thesis
    by (simp add: float_eq_def)
qed

text \<open>
  The claim as the specification states it fails. In each of these runs only the first
  cutoff has a row, so the cutoff 5 is missing, and the error raised is not the one of
  a missing cutoff: a zero rate raises \<^verbatim>\<open>ZeroDivisionError\<close>, a NaN value at the first
  cutoff raises \<^verbatim>\<open>ValueError\<close> and an infinite one raises \<^verbatim>\<open>OverflowError\<close>.
\<close>

theorem prepare_summary_data_other_error_counterexample:
  "Finite 5 \<in> set (map fst percentile_cutoffs)
   \<and> filter (\<lambda>r. float_eq (percentile_lower r) (Finite 5)) [\<lparr>percentile_lower = Finite 1, band_value = PyFloat (Finite 1)\<rparr>] = []
   \<and> prepare_summary_data plain_babel [\<lparr>percentile_lower = Finite 1, band_value = PyFloat (Finite 1)\<rparr>] [\<lparr>meta_variable = ''aptincj992'', unit = ''INR''\<rparr>] ''IN'' (PyInt 0) = Inl ZeroDivisionError
   \<and> prepare_summary_data plain_babel [\<lparr>percentile_lower = Finite 1, band_value = PyFloat (Finite 1)\<rparr>] [\<lparr>meta_variable = ''aptincj992'', unit = ''INR''\<rparr>] ''IN'' (PyFloat (Finite 0))
       = Inl ZeroDivisionError
   \<and> filter (\<lambda>r. float_eq (percentile_lower r) (Finite 5)) [\<lparr>percentile_lower = Finite 1, band_value = PyFloat NaN\<rparr>] = []
   \<and> prepare_summary_data plain_babel [\<lparr>percentile_lower = Finite 1, band_value = PyFloat NaN\<rparr>] [\<lparr>meta_variable = ''aptincj992'', unit = ''INR''\<rparr>] ''IN'' (PyInt 2) = Inl ValueError
   \<and> filter (\<lambda>r. float_eq (percentile_lower r) (Finite 5)) [\<lparr>percentile_lower = Finite 1, band_value = PyFloat PosInf\<rparr>] = []
   \<and> prepare_summary_data plain_babel [\<lparr>percentile_lower = Finite 1, band_value = PyFloat PosInf\<rparr>] [\<lparr>meta_variable = ''aptincj992'', unit = ''INR''\<rparr>] ''IN'' (PyInt 2) = Inl OverflowError"
proof -
  have one: "round_double 1 = Finite 1"
    by (simp add: float_eval)
  then show ?thesis
    by (simp add: summary_eval)
qed

text \<open>
  Claim C1, as the code has it. On the frame with exactly the ten cutoffs, valued
  1, 5, 10, 50, 90, 95, 99, 999, 9999, 99999 (as an integer column or as a float
  column), and the rate 2 (as an \<^verbatim>\<open>int\<close> or as a \<^verbatim>\<open>float\<close>), \<^verbatim>\<open>prepare_summary_data\<close> returns
  ten records in the order of the cutoffs whose \<^verbatim>\<open>value_usd\<close> are
  0, 2, 5, 25, 45, 48, 50, 500, 5000, 50000: the value divided by the rate and rounded
  to the nearest integer, to the even one on a tie (so 5 / 2 gives 2, as 1 / 2 gives 0
  and 95 / 2 gives 48). Each record carries the label \<^verbatim>\<open>get_afford\<close> gives for its
  rounded amount.
\<close>

theorem prepare_summary_data_ten_cutoffs:
  "(let expected = (\<lambda>result.
          \<exists>records. result = Inr records
            \<and> map value_usd records = [0, 2, 5, 25, 45, 48, 50, 500, 5000, 50000]
            \<and> map value_usd records =
                map (\<lambda>v. round_half_even (of_int v / 2))
                  [1, 5, 10, 50, 90, 95, 99, 999, 9999, 99999]
            \<and> map afford records =
                map get_afford [0, 2, 5, 25, 45, 48, 50, 500, 5000, 50000]
            \<and> map percentile_label records =
                [''Bottom 1%'', ''Bottom 5%'', ''Bottom 10%'', ''Middle 50%'', ''Top 10%'',
                ''Top 5%'', ''Top 1%'', ''Top 0.1%'', ''Top 0.01%'', ''Top 0.001%''])
    in expected (prepare_summary_data lib (ten_cutoffs_df PyInt) (m # ms) cc (PyInt 2))
     \<and> expected
          (prepare_summary_data lib (ten_cutoffs_df PyInt) (m # ms) cc (PyFloat (Finite 2)))
     \<and> expected (prepare_summary_data lib (ten_cutoffs_df float_cell) (m # ms) cc (PyInt 2))
     \<and> expected
          (prepare_summary_data lib (ten_cutoffs_df float_cell) (m # ms) cc
             (PyFloat (Finite 2))))"
  unfolding Let_def halves_rounded
  using doubles_of_halves doubles_of_values halves_rounded
  by (simp add: summary_eval ten_cutoffs_df_def)

text \<open>
  The claim as the specification states it fails: the second value is 2, not 3.
\<close>

theorem prepare_summary_data_ten_cutoffs_counterexample:
  "\<not> isl (prepare_summary_data plain_babel (ten_cutoffs_df PyInt) [\<lparr>meta_variable = ''aptincj992'', unit = ''INR''\<rparr>] ''IN'' (PyInt 2))
   \<and> map value_usd
        (projr (prepare_summary_data plain_babel (ten_cutoffs_df PyInt) [\<lparr>meta_variable = ''aptincj992'', unit = ''INR''\<rparr>] ''IN'' (PyInt 2)))
       = [0, 2, 5, 25, 45, 48, 50, 500, 5000, 50000]
   \<and> map value_usd
        (projr (prepare_summary_data plain_babel (ten_cutoffs_df PyInt) [\<lparr>meta_variable = ''aptincj992'', unit = ''INR''\<rparr>] ''IN'' (PyInt 2)))
       \<noteq> [0, 3, 5, 25, 45, 48, 50, 500, 5000, 50000]"
  using doubles_of_halves halves_rounded
  by (simp add: summary_eval ten_cutoffs_df_def)

end
